theory Spec2Isabelle
  imports Complex_Main "HOL-Library.Word" "HOL-Library.Log_Nat"
begin

section \<open>The playground component: data model\<close>

text \<open>
  The component is the \<^verbatim>\<open><script setup>\<close> block of the playground page. Its
  reactive refs become the fields of one state record, its computed values become
  functions of that state, and its methods become state transformers. Third-party
  modules (\<^verbatim>\<open>JSON\<close>, the TOON encoder, fflate, uint8array-extras, yaml, papaparse,
  gpt-tokenizer) are not part of the component: they are parameters, collected in the
  record \<open>env\<close> when they are imported statically and stored in the state when they are
  loaded lazily.
\<close>

subsection \<open>Values\<close>

text \<open>A parsed document: what \<^verbatim>\<open>JSON.parse\<close> and the format libraries produce.\<close>

datatype json =
    JNull
  | JBool bool
  | JNum rat
  | JStr string
  | JArr "json list"
  | JObj "(string \<times> json) list"

text \<open>\<^verbatim>\<open>Array.isArray(x)\<close>.\<close>

fun isArray :: "json \<Rightarrow> bool" where
  "isArray (JArr _) = True"
| "isArray _ = False"

text \<open>The truth value JavaScript gives a document in a condition.\<close>

fun truthy :: "json \<Rightarrow> bool" where
  "truthy JNull = False"
| "truthy (JBool b) = b"
| "truthy (JNum n) = (n \<noteq> 0)"
| "truthy (JStr s) = (s \<noteq> [])"
| "truthy (JArr _) = True"
| "truthy (JObj _) = True"

text \<open>Property access \<^verbatim>\<open>v.k\<close>; \<open>None\<close> is \<^verbatim>\<open>undefined\<close>.\<close>

fun property :: "json \<Rightarrow> string \<Rightarrow> json option" where
  "property (JObj kvs) k = map_of kvs k"
| "property _ k = None"

text \<open>
  A thrown value. The component only ever asks whether it is an \<^verbatim>\<open>Error\<close> and, if
  so, for its message.
\<close>

datatype thrown = Error string | NonError

text \<open>\<^verbatim>\<open>type Delimiter\<close> of the TOON package, as listed by \<^verbatim>\<open>DELIMITER_OPTIONS\<close>.\<close>

datatype Delimiter = Comma | Tab | Pipe

fun delimiter_string :: "Delimiter \<Rightarrow> string" where
  "delimiter_string Comma = '',''"
| "delimiter_string Tab = [CHR 0x09]"
| "delimiter_string Pipe = ''|''"

type_synonym bytes = "8 word list"

datatype format_id = Fjson | Ftoon | Fyaml | Fcsv

text \<open>The three values \<^verbatim>\<open>activeEditor\<close> can hold.\<close>

datatype editor_id = Ejson | Eyaml | Ecsv

datatype PlusOrMinus = Plus | Minus

text \<open>
  \<^verbatim>\<open>CalculatedSavings\<close> without its \<^verbatim>\<open>undefined\<close> case, and \<^verbatim>\<open>Format\<close>, whose fields \<^verbatim>\<open>id\<close> and
  \<^verbatim>\<open>output\<close> are \<open>fid\<close> and \<open>outputText\<close> here. A token count is the length of an array.
\<close>

record CalculatedSavings =
  diff :: int
  percent :: string
  sign :: PlusOrMinus
  isSavings :: bool

record Format =
  fid :: format_id
  title :: string
  editable :: bool
  outputText :: string
  tokens :: "nat option"
  savings :: "CalculatedSavings option"

subsection \<open>The imported modules\<close>

text \<open>
  Statically imported functions. A function that can throw returns \<open>Inl\<close> of the thrown
  value; \<^verbatim>\<open>uint8ArrayToString\<close> decodes with replacement characters and does not throw.
  \<open>JSON_stringify v n\<close> is \<^verbatim>\<open>JSON.stringify(v, undefined, n)\<close>, with \<open>n = 0\<close> for the call
  without a space argument; \<open>uint8ArrayToBase64 b u\<close> passes \<^verbatim>\<open>{ urlSafe: u }\<close>;
  \<open>encode d i dl\<close> is the TOON encoder called with \<^verbatim>\<open>{ indent: i, delimiter: dl }\<close>.
\<close>

record env =
  JSON_parse :: "string \<Rightarrow> thrown + json"
  JSON_stringify :: "json \<Rightarrow> nat \<Rightarrow> string"
  encode :: "json \<Rightarrow> int \<Rightarrow> Delimiter \<Rightarrow> thrown + string"
  zlibSync :: "bytes \<Rightarrow> bytes"
  unzlibSync :: "bytes \<Rightarrow> thrown + bytes"
  stringToUint8Array :: "string \<Rightarrow> bytes"
  uint8ArrayToString :: "bytes \<Rightarrow> string"
  uint8ArrayToBase64 :: "bytes \<Rightarrow> bool \<Rightarrow> string"
  base64ToUint8Array :: "string \<Rightarrow> thrown + bytes"

text \<open>The lazily loaded modules. Only the length of the tokenizer's result is used.\<close>

record tokenizer_module =
  tokenizer_encode :: "string \<Rightarrow> nat list"

record yaml_module =
  yaml_parse :: "string \<Rightarrow> thrown + json"
  yaml_stringify :: "json \<Rightarrow> int \<Rightarrow> thrown + string"

text \<open>
  papaparse: \<^verbatim>\<open>parse\<close> takes the text and a configuration and returns a result object
  with the rows in \<^verbatim>\<open>data\<close> and the problems it met in \<^verbatim>\<open>errors\<close>; the component reads
  \<^verbatim>\<open>data\<close> only.
\<close>

record parse_config =
  header :: bool
  dynamicTyping :: bool

record parse_result =
  data :: json
  errors :: "string list"

record papa_module =
  papa_parse :: "string \<Rightarrow> parse_config \<Rightarrow> thrown + parse_result"
  papa_unparse :: "json \<Rightarrow> thrown + string"

subsection \<open>The reactive state\<close>

record pg_state =
  jsonInput :: string
  yamlInput :: string
  csvInput :: string
  delimiter :: Delimiter
  indent :: int
  hasCopiedUrl :: bool
  activeEditor :: editor_id
  tokenizer :: "tokenizer_module option"
  yaml :: "yaml_module option"
  papa :: "papa_module option"

section \<open>Computed values\<close>

text \<open>
  \<^verbatim>\<open>parsedJson\<close>: the parse result of the JSON text, or \<^verbatim>\<open>null\<close> data and a message.
  \<^verbatim>\<open>null\<close> in the \<^verbatim>\<open>error\<close> field is \<open>None\<close>.
\<close>

record parsed =
  pdata :: json
  perror :: "string option"

definition parsedJson :: "env \<Rightarrow> pg_state \<Rightarrow> parsed" where
  "parsedJson E s =
     (case JSON_parse E (jsonInput s) of
        Inr d \<Rightarrow> \<lparr>pdata = d, perror = None\<rparr>
      | Inl e \<Rightarrow> \<lparr>pdata = JNull,
                  perror = Some (case e of Error m \<Rightarrow> m | NonError \<Rightarrow> ''Invalid JSON'')\<rparr>)"

text \<open>
  The test \<^verbatim>\<open>if (parsedJson.value.error)\<close>: \<^verbatim>\<open>null\<close> and the empty string are
  false.
\<close>

definition has_error :: "parsed \<Rightarrow> bool" where
  "has_error p = (case perror p of None \<Rightarrow> False | Some m \<Rightarrow> m \<noteq> [])"

definition toonOutput :: "env \<Rightarrow> pg_state \<Rightarrow> string" where
  "toonOutput E s =
     (if has_error (parsedJson E s) then []
      else case encode E (pdata (parsedJson E s)) (indent s) (delimiter s) of
             Inr t \<Rightarrow> t
           | Inl _ \<Rightarrow> [])"

definition yamlOutput :: "env \<Rightarrow> pg_state \<Rightarrow> string" where
  "yamlOutput E s =
     (case yaml s of
        None \<Rightarrow> []
      | Some y \<Rightarrow>
          if has_error (parsedJson E s) then []
          else (case yaml_stringify y (pdata (parsedJson E s)) (indent s) of
                  Inr t \<Rightarrow> t
                | Inl _ \<Rightarrow> []))"

definition csvOutput :: "env \<Rightarrow> pg_state \<Rightarrow> string" where
  "csvOutput E s =
     (case papa s of
        None \<Rightarrow> []
      | Some p \<Rightarrow>
          if has_error (parsedJson E s) then []
          else
            let array = (if isArray (pdata (parsedJson E s))
                         then pdata (parsedJson E s)
                         else JArr [pdata (parsedJson E s)])
            in (case papa_unparse p array of
                  Inr t \<Rightarrow> t
                | Inl _ \<Rightarrow> []))"

subsection \<open>Token counts\<close>

text \<open>\<^verbatim>\<open>tokenizer.value?.encode(text).length\<close>: \<^verbatim>\<open>undefined\<close> is \<open>None\<close>.\<close>

definition calculateTokens :: "pg_state \<Rightarrow> string \<Rightarrow> nat option" where
  "calculateTokens s text =
     (case tokenizer s of
        None \<Rightarrow> None
      | Some t \<Rightarrow> Some (length (tokenizer_encode t text)))"

definition jsonTokens :: "pg_state \<Rightarrow> nat option" where
  "jsonTokens s = calculateTokens s (jsonInput s)"

definition yamlTokens :: "env \<Rightarrow> pg_state \<Rightarrow> nat option" where
  "yamlTokens E s =
     (if yamlOutput E s \<noteq> [] then calculateTokens s (yamlOutput E s) else None)"

definition csvTokens :: "env \<Rightarrow> pg_state \<Rightarrow> nat option" where
  "csvTokens E s =
     (if csvOutput E s \<noteq> [] then calculateTokens s (csvOutput E s) else None)"

definition toonTokens :: "env \<Rightarrow> pg_state \<Rightarrow> nat option" where
  "toonTokens E s =
     (if toonOutput E s \<noteq> [] then calculateTokens s (toonOutput E s) else None)"

subsection \<open>JavaScript numbers\<close>

text \<open>
  \<^verbatim>\<open>calculateSavings\<close> divides, multiplies and formats with JavaScript numbers, which are
  IEEE 754 binary64 values. A finite double is a rational, so the arithmetic is modelled
  on \<open>rat\<close>: each operation is the exact result rounded to the nearest double, ties to
  the even significand. Token counts are array lengths (below \<open>2 ^ 32\<close>), so their
  difference is exact and the quotients stay in the range of normal doubles; overflow and
  subnormal numbers are not modelled.
\<close>

definition pow2 :: "int \<Rightarrow> rat" where
  "pow2 k = (if 0 \<le> k then 2 ^ nat k else 1 / 2 ^ nat (- k))"

text \<open>For \<open>x > 0\<close>: the exponent \<open>e\<close> with \<open>2 ^ e \<le> x < 2 ^ (e + 1)\<close>.\<close>

definition ilog2 :: "rat \<Rightarrow> int" where
  "ilog2 x =
     (let (p, q) = quotient_of x;
          d = bitlen p - bitlen q
      in if pow2 d \<le> x then d else d - 1)"

definition round_ties_even :: "rat \<Rightarrow> int" where
  "round_ties_even x =
     (let f = \<lfloor>x\<rfloor>; r = x - of_int f
      in if r < 1 / 2 then f
         else if 1 / 2 < r then f + 1
         else if even f then f else f + 1)"

text \<open>Rounding to a significand of 53 bits.\<close>

definition to_double :: "rat \<Rightarrow> rat" where
  "to_double x =
     (if x = 0 then 0
      else let u = pow2 (ilog2 \<bar>x\<bar> - 52)
           in of_int (round_ties_even (x / u)) * u)"

definition js_div :: "rat \<Rightarrow> rat \<Rightarrow> rat" where
  "js_div a b = to_double (a / b)"

definition js_mul :: "rat \<Rightarrow> rat \<Rightarrow> rat" where
  "js_mul a b = to_double (a * b)"

definition digit_char :: "int \<Rightarrow> char" where
  "digit_char d = char_of (48 + d)"

text \<open>The decimal digits of a non-negative integer.\<close>

function show_nat :: "int \<Rightarrow> string" where
  "show_nat n =
     (if n < 10 then [digit_char n]
      else show_nat (n div 10) @ [digit_char (n mod 10)])"
  by pat_completeness auto
termination
  by (relation "measure nat") auto

declare show_nat.simps [simp del]

text \<open>
  \<^verbatim>\<open>x.toFixed(1)\<close> for \<open>0 \<le> x < 10 ^ 21\<close>: the integer \<open>n\<close> with \<open>n / 10\<close> nearest to the
  exact value of \<open>x\<close>, the larger one when two are equally near, printed with one digit
  after the point.
\<close>

definition toFixed1 :: "rat \<Rightarrow> string" where
  "toFixed1 x =
     (let n = \<lfloor>x * 10 + 1 / 2\<rfloor>
      in show_nat (n div 10) @ ''.'' @ show_nat (n mod 10))"

subsection \<open>Savings\<close>

text \<open>
  The guard \<^verbatim>\<open>!baseTokens || !compareTokens\<close>: an absent count and the count zero are
  false.
\<close>

definition calculateSavings :: "nat option \<Rightarrow> nat option \<Rightarrow> CalculatedSavings option" where
  "calculateSavings baseTokens compareTokens =
     (case (baseTokens, compareTokens) of
        (Some b, Some c) \<Rightarrow>
          if b = 0 \<or> c = 0 then None
          else
            let d = int b - int c;
                p = toFixed1 \<bar>js_mul (js_div (of_int d) (of_nat b)) 100\<bar>;
                sg = (if 0 < d then Minus else Plus)
            in Some \<lparr>diff = d, percent = p, sign = sg, isSavings = (0 < d)\<rparr>
      | _ \<Rightarrow> None)"

definition formats :: "env \<Rightarrow> pg_state \<Rightarrow> Format list" where
  "formats E s =
     [\<lparr>fid = Fjson, title = ''JSON Input'', editable = True,
       outputText = jsonInput s, tokens = jsonTokens s, savings = None\<rparr>,
      \<lparr>fid = Ftoon, title = ''TOON Output'', editable = False,
       outputText = toonOutput E s, tokens = toonTokens E s,
       savings = calculateSavings (jsonTokens s) (toonTokens E s)\<rparr>,
      \<lparr>fid = Fyaml, title = ''YAML'', editable = True,
       outputText = yamlOutput E s, tokens = yamlTokens E s,
       savings = calculateSavings (jsonTokens s) (yamlTokens E s)\<rparr>,
      \<lparr>fid = Fcsv, title = ''CSV'', editable = True,
       outputText = csvOutput E s, tokens = csvTokens E s,
       savings = calculateSavings (jsonTokens s) (csvTokens E s)\<rparr>]"

section \<open>Methods\<close>

text \<open>
  A method that writes refs returns how it completed and the state it left: a throw
  keeps the writes made before it.
\<close>

datatype completion = Normal | Throw thrown

text \<open>\<^verbatim>\<open>try { r } catch {}\<close>.\<close>

definition catch_ignore :: "completion \<times> 'a \<Rightarrow> completion \<times> 'a" where
  "catch_ignore r = (Normal, snd r)"

definition parseInput_yaml :: "env \<Rightarrow> string \<Rightarrow> pg_state \<Rightarrow> completion \<times> pg_state" where
  "parseInput_yaml E v s =
     (case yaml s of
        None \<Rightarrow> (Normal, s)
      | Some y \<Rightarrow>
          catch_ignore
            (case yaml_parse y v of
               Inl e \<Rightarrow> (Throw e, s)
             | Inr parsed \<Rightarrow> (Normal, s\<lparr>jsonInput := JSON_stringify E parsed 2\<rparr>)))"

definition parseInput_csv :: "env \<Rightarrow> string \<Rightarrow> pg_state \<Rightarrow> completion \<times> pg_state" where
  "parseInput_csv E v s =
     (case papa s of
        None \<Rightarrow> (Normal, s)
      | Some p \<Rightarrow>
          catch_ignore
            (case papa_parse p v \<lparr>header = True, dynamicTyping = True\<rparr> of
               Inl e \<Rightarrow> (Throw e, s)
             | Inr result \<Rightarrow>
                 if truthy (data result)
                 then (Normal, s\<lparr>jsonInput := JSON_stringify E (data result) 2\<rparr>)
                 else (Normal, s)))"

text \<open>The two blocks of \<^verbatim>\<open>syncOutputs\<close>; neither call is inside a \<^verbatim>\<open>try\<close>.\<close>

definition sync_yaml :: "env \<Rightarrow> pg_state \<Rightarrow> completion \<times> pg_state" where
  "sync_yaml E s =
     (case yaml s of
        None \<Rightarrow> (Normal, s)
      | Some y \<Rightarrow>
          (case yaml_stringify y (pdata (parsedJson E s)) (indent s) of
             Inl e \<Rightarrow> (Throw e, s)
           | Inr t \<Rightarrow> (Normal, s\<lparr>yamlInput := t\<rparr>)))"

definition sync_csv :: "env \<Rightarrow> pg_state \<Rightarrow> completion \<times> pg_state" where
  "sync_csv E s =
     (case papa s of
        None \<Rightarrow> (Normal, s)
      | Some p \<Rightarrow>
          (let array = (if isArray (pdata (parsedJson E s))
                        then pdata (parsedJson E s)
                        else JArr [pdata (parsedJson E s)])
           in case papa_unparse p array of
                Inl e \<Rightarrow> (Throw e, s)
              | Inr t \<Rightarrow> (Normal, s\<lparr>csvInput := t\<rparr>)))"

definition syncOutputs :: "env \<Rightarrow> pg_state \<Rightarrow> completion \<times> pg_state" where
  "syncOutputs E s =
     (if activeEditor s \<noteq> Ejson \<or> has_error (parsedJson E s) then (Normal, s)
      else case sync_yaml E s of
             (Normal, s1) \<Rightarrow> sync_csv E s1
           | (Throw e, s1) \<Rightarrow> (Throw e, s1))"

subsection \<open>The share token\<close>

text \<open>
  \<^verbatim>\<open>encodeState\<close>: the object literal with the three session fields, its JSON text,
  the bytes of the text, compressed, in URL-safe base64.
\<close>

definition encodeState :: "env \<Rightarrow> pg_state \<Rightarrow> string" where
  "encodeState E s =
     (let state = JObj [(''json'', JStr (jsonInput s)),
                        (''delimiter'', JStr (delimiter_string (delimiter s))),
                        (''indent'', JNum (of_int (indent s)))];
          compressed = zlibSync E (stringToUint8Array E (JSON_stringify E state 0))
      in uint8ArrayToBase64 E compressed True)"

text \<open>
  The body of the \<^verbatim>\<open>try\<close> block of \<^verbatim>\<open>decodeState\<close>, and the function with its
  \<^verbatim>\<open>catch\<close>. \<^verbatim>\<open>undefined\<close> is \<open>None\<close>; \<open>Inl\<close> would be an exception reaching the caller.
\<close>

definition decodeState_body :: "env \<Rightarrow> string \<Rightarrow> thrown + json option" where
  "decodeState_body E hash =
     (case base64ToUint8Array E hash of
        Inl e \<Rightarrow> Inl e
      | Inr bs \<Rightarrow>
          (case unzlibSync E bs of
             Inl e \<Rightarrow> Inl e
           | Inr decompressed \<Rightarrow>
               (let decoded = uint8ArrayToString E decompressed
                in if decoded \<noteq> []
                   then (case JSON_parse E decoded of
                           Inl e \<Rightarrow> Inl e
                         | Inr v \<Rightarrow> Inr (Some v))
                   else Inr None)))"

definition decodeState :: "env \<Rightarrow> string \<Rightarrow> thrown + json option" where
  "decodeState E hash =
     (case decodeState_body E hash of
        Inl _ \<Rightarrow> Inr None
      | Inr r \<Rightarrow> Inr r)"

subsection \<open>Editor events and watchers\<close>

definition updateEditorInput :: "format_id \<Rightarrow> string \<Rightarrow> pg_state \<Rightarrow> pg_state" where
  "updateEditorInput formatId v s =
     (if formatId = Fjson then s\<lparr>jsonInput := v\<rparr>
      else if formatId = Fyaml then s\<lparr>yamlInput := v\<rparr>
      else if formatId = Fcsv then s\<lparr>csvInput := v\<rparr>
      else s)"

definition handleEditorFocus :: "format_id \<Rightarrow> pg_state \<Rightarrow> pg_state" where
  "handleEditorFocus formatId s =
     (case formatId of
        Fjson \<Rightarrow> s\<lparr>activeEditor := Ejson\<rparr>
      | Fyaml \<Rightarrow> s\<lparr>activeEditor := Eyaml\<rparr>
      | Fcsv \<Rightarrow> s\<lparr>activeEditor := Ecsv\<rparr>
      | Ftoon \<Rightarrow> s)"

text \<open>
  The watcher callbacks on \<^verbatim>\<open>jsonInput\<close>, \<^verbatim>\<open>yamlInput\<close> and \<^verbatim>\<open>csvInput\<close>. The debounced
  \<^verbatim>\<open>updateUrl\<close> writes the address bar only and is left out.
\<close>

definition watch_jsonInput :: "env \<Rightarrow> pg_state \<Rightarrow> completion \<times> pg_state" where
  "watch_jsonInput E s = syncOutputs E s"

definition watch_yamlInput :: "env \<Rightarrow> pg_state \<Rightarrow> completion \<times> pg_state" where
  "watch_yamlInput E s =
     (if activeEditor s = Eyaml then parseInput_yaml E (yamlInput s) s else (Normal, s))"

definition watch_csvInput :: "env \<Rightarrow> pg_state \<Rightarrow> completion \<times> pg_state" where
  "watch_csvInput E s =
     (if activeEditor s = Ecsv then parseInput_csv E (csvInput s) s else (Normal, s))"

text \<open>
  A watcher callback runs when the value of its ref has changed. \<open>flush E old s\<close> runs
  the callbacks due after the state went from \<open>old\<close> to \<open>s\<close>, in the order the watchers
  were registered, and once more the one on \<^verbatim>\<open>jsonInput\<close> if a parse callback rewrote
  it. It returns how each callback completed: a throw is handed to the framework and
  the next callback still runs.
\<close>

definition flush :: "env \<Rightarrow> pg_state \<Rightarrow> pg_state \<Rightarrow> completion list \<times> pg_state" where
  "flush E old s =
     (let r1 = (if jsonInput s \<noteq> jsonInput old then watch_jsonInput E s else (Normal, s));
          r2 = (if yamlInput (snd r1) \<noteq> yamlInput old
                then watch_yamlInput E (snd r1) else (Normal, snd r1));
          r3 = (if csvInput (snd r2) \<noteq> csvInput old
                then watch_csvInput E (snd r2) else (Normal, snd r2));
          r4 = (if jsonInput (snd r3) \<noteq> jsonInput s
                then watch_jsonInput E (snd r3) else (Normal, snd r3))
      in ([fst r1, fst r2, fst r3, fst r4], snd r4))"

text \<open>The \<^verbatim>\<open>@input\<close> event of a pane: the handler, then the watchers.\<close>

definition input_event ::
  "env \<Rightarrow> format_id \<Rightarrow> string \<Rightarrow> pg_state \<Rightarrow> completion list \<times> pg_state" where
  "input_event E formatId v s = flush E s (updateEditorInput formatId v s)"

section \<open>A sample environment\<close>

text \<open>
  Concrete modules, to evaluate the component on concrete inputs. The parsers and
  serializers are tabulated on the few texts used below, where they return what the real
  modules return; outside the table they throw (\<^verbatim>\<open>JSON.stringify\<close> answers \<^verbatim>\<open>null\<close>). The
  binary-to-text codec is base64 as uint8array-extras implements it: the URL-safe
  alphabet without padding when \<open>urlSafe\<close> is set, and a decoder that accepts both
  alphabets, with or without padding. The compressor writes stored deflate blocks, as
  fflate does at level 0, so its output is a zlib stream that \<^verbatim>\<open>unzlibSync\<close> reads back;
  the decompressor reads stored blocks only. The tokenizer is a stand-in that makes one
  token of each character.
\<close>

definition dq :: char where
  "dq = CHR 0x22"

definition quoted :: "string \<Rightarrow> string" where
  "quoted t = [dq] @ t @ [dq]"

definition nl :: string where
  "nl = [CHR 0x0A]"

definition crlf :: string where
  "crlf = [CHR 0x0D, CHR 0x0A]"

text \<open>The documents \<^verbatim>\<open>{a: 1}\<close>, \<^verbatim>\<open>{a: 2}\<close>, \<^verbatim>\<open>{a: 1, b: 2}\<close> and \<^verbatim>\<open>[{a: 1, b: 2}]\<close>.\<close>

definition doc_a1 :: json where
  "doc_a1 = JObj [(''a'', JNum 1)]"

definition doc_a2 :: json where
  "doc_a2 = JObj [(''a'', JNum 2)]"

definition doc_ab :: json where
  "doc_ab = JObj [(''a'', JNum 1), (''b'', JNum 2)]"

definition rows_ab :: json where
  "rows_ab = JArr [doc_ab]"

text \<open>
  JSON texts: \<open>json_a1\<close> is the compact text of \<open>doc_a1\<close>, \<open>json_cut\<close> the same text cut
  off after the colon, \<open>json_a2_pretty\<close> and \<open>json_rows_pretty\<close> the texts of \<open>doc_a2\<close> and
  \<open>rows_ab\<close> with an indentation of two, and \<open>json_state\<close> the compact text of the
  session object holding \<open>json_a1\<close>, a comma and the indentation two.
\<close>

definition json_a1 :: string where
  "json_a1 = ''{'' @ quoted ''a'' @ '':1}''"

definition json_cut :: string where
  "json_cut = ''{'' @ quoted ''a'' @ '':''"

definition json_a2_pretty :: string where
  "json_a2_pretty = ''{'' @ nl @ ''  '' @ quoted ''a'' @ '': 2'' @ nl @ ''}''"

definition json_rows_pretty :: string where
  "json_rows_pretty =
     ''['' @ nl @ ''  {'' @ nl
       @ ''    '' @ quoted ''a'' @ '': 1,'' @ nl
       @ ''    '' @ quoted ''b'' @ '': 2'' @ nl
       @ ''  }'' @ nl @ '']''"

definition json_state :: string where
  "json_state =
     ''{'' @ quoted ''json'' @ '':''
       @ [dq] @ ''{'' @ [CHR 0x5C, dq] @ ''a'' @ [CHR 0x5C, dq] @ '':1}'' @ [dq]
       @ '','' @ quoted ''delimiter'' @ '':'' @ quoted '',''
       @ '','' @ quoted ''indent'' @ '':2}''"

text \<open>The session object whose compact text is \<open>json_state\<close>.\<close>

definition sample_session :: json where
  "sample_session =
     JObj [(''json'', JStr json_a1), (''delimiter'', JStr '',''), (''indent'', JNum 2)]"

definition sample_JSON_parse :: "string \<Rightarrow> thrown + json" where
  "sample_JSON_parse t =
     (if t = json_a1 then Inr doc_a1
      else if t = json_a2_pretty then Inr doc_a2
      else if t = json_rows_pretty then Inr rows_ab
      else if t = json_state then Inr sample_session
      else Inl (Error ''Unexpected end of JSON input''))"

definition sample_JSON_stringify :: "json \<Rightarrow> nat \<Rightarrow> string" where
  "sample_JSON_stringify v n =
     (if v = doc_a2 \<and> n = 2 then json_a2_pretty
      else if v = rows_ab \<and> n = 2 then json_rows_pretty
      else if v = sample_session \<and> n = 0 then json_state
      else ''null'')"

definition sample_encode :: "json \<Rightarrow> int \<Rightarrow> Delimiter \<Rightarrow> thrown + string" where
  "sample_encode d i dl =
     (if d = doc_a1 then Inr ''a: 1''
      else if d = doc_a2 then Inr ''a: 2''
      else if d = rows_ab \<and> dl = Comma then Inr (''[1]{a,b}:'' @ nl @ ''  1,2'')
      else Inl (Error ''outside the sample''))"

subsection \<open>Base64\<close>

definition b64_alphabet :: "bool \<Rightarrow> string" where
  "b64_alphabet urlSafe =
     ''ABCDEFGHIJKLMNOPQRSTUVWXYZabcdefghijklmnopqrstuvwxyz0123456789''
       @ (if urlSafe then ''-_'' else ''+/'')"

fun b64_sextets :: "nat list \<Rightarrow> nat list" where
  "b64_sextets (a # b # c # r) =
     [a div 4, (a mod 4) * 16 + b div 16, (b mod 16) * 4 + c div 64, c mod 64]
       @ b64_sextets r"
| "b64_sextets [a, b] = [a div 4, (a mod 4) * 16 + b div 16, (b mod 16) * 4]"
| "b64_sextets [a] = [a div 4, (a mod 4) * 16]"
| "b64_sextets [] = []"

definition sample_uint8ArrayToBase64 :: "bytes \<Rightarrow> bool \<Rightarrow> string" where
  "sample_uint8ArrayToBase64 bs urlSafe =
     (let body = map (\<lambda>i. b64_alphabet urlSafe ! i) (b64_sextets (map unat bs))
      in if urlSafe then body
         else body @ replicate ((3 - length bs mod 3) mod 3) (CHR ''=''))"

definition b64_value :: "char \<Rightarrow> nat option" where
  "b64_value ch =
     (if ch = CHR ''-'' then Some 62
      else if ch = CHR ''_'' then Some 63
      else map_of (zip (b64_alphabet False) [0..<64]) ch)"

fun b64_octets :: "nat list \<Rightarrow> nat list option" where
  "b64_octets (a # b # c # d # r) =
     map_option (\<lambda>t. [a * 4 + b div 16, (b mod 16) * 16 + c div 4, (c mod 4) * 64 + d] @ t)
       (b64_octets r)"
| "b64_octets [a, b, c] = Some [a * 4 + b div 16, (b mod 16) * 16 + c div 4]"
| "b64_octets [a, b] = Some [a * 4 + b div 16]"
| "b64_octets [a] = None"
| "b64_octets [] = Some []"

definition sample_base64ToUint8Array :: "string \<Rightarrow> thrown + bytes" where
  "sample_base64ToUint8Array t =
     (let body = rev (dropWhile (\<lambda>ch. ch = CHR ''='') (rev t))
      in case those (map b64_value body) of
           None \<Rightarrow> Inl (Error ''InvalidCharacterError'')
         | Some vs \<Rightarrow>
             (case b64_octets vs of
                None \<Rightarrow> Inl (Error ''InvalidCharacterError'')
              | Some os \<Rightarrow> Inr (map of_nat os)))"

subsection \<open>Zlib with stored blocks\<close>

fun adler_loop :: "int \<Rightarrow> int \<Rightarrow> bytes \<Rightarrow> int" where
  "adler_loop a b [] = b * 65536 + a"
| "adler_loop a b (x # xs) =
     adler_loop ((a + uint x) mod 65521) ((b + (a + uint x) mod 65521) mod 65521) xs"

definition adler32 :: "bytes \<Rightarrow> int" where
  "adler32 bs = adler_loop 1 0 bs"

definition be32 :: "int \<Rightarrow> bytes" where
  "be32 n =
     map of_int [n div 16777216 mod 256, n div 65536 mod 256, n div 256 mod 256, n mod 256]"

text \<open>A stored block: the final-block flag, the length and its complement, the data.\<close>

definition stored_block :: "bool \<Rightarrow> int \<Rightarrow> bytes \<Rightarrow> bytes" where
  "stored_block final n ds =
     map of_int [if final then 1 else 0, n mod 256, n div 256,
                 (65535 - n) mod 256, (65535 - n) div 256] @ ds"

text \<open>
  Blocks of at most 65535 bytes; \<open>cur\<close> collects the current block in reverse and \<open>n\<close>
  counts its bytes.
\<close>

fun stored_blocks :: "int \<Rightarrow> bytes \<Rightarrow> bytes \<Rightarrow> bytes" where
  "stored_blocks n cur [] = stored_block True n (rev cur)"
| "stored_blocks n cur (x # xs) =
     (if n = 65535 then stored_block False n (rev cur) @ stored_blocks 1 [x] xs
      else stored_blocks (n + 1) (x # cur) xs)"

definition sample_zlibSync :: "bytes \<Rightarrow> bytes" where
  "sample_zlibSync bs = [0x78, 0x01] @ stored_blocks 0 [] bs @ be32 (adler32 bs)"

text \<open>
  The length field of a stored block, and the blocks of a stream. A block whose data is
  cut short (\<open>take\<close> returns fewer bytes than the length field says) is an error.
\<close>

definition block_length :: "8 word \<Rightarrow> 8 word \<Rightarrow> nat" where
  "block_length l0 l1 = nat (uint l0 + 256 * uint l1)"

function inflate_stored :: "bytes \<Rightarrow> thrown + bytes" where
  "inflate_stored bs =
     (case bs of
        h # l0 # l1 # n0 # n1 # r \<Rightarrow>
          if (uint h div 2) mod 4 \<noteq> 0 then Inl (Error ''outside the sample'')
          else if length (take (block_length l0 l1) r) \<noteq> block_length l0 l1
          then Inl (Error ''unexpected EOF'')
          else if uint h mod 2 = 1 then Inr (take (block_length l0 l1) r)
          else (case inflate_stored (drop (block_length l0 l1) r) of
                  Inl e \<Rightarrow> Inl e
                | Inr t \<Rightarrow> Inr (take (block_length l0 l1) r @ t))
      | _ \<Rightarrow> Inl (Error ''unexpected EOF''))"
  by pat_completeness auto
termination
  by (relation "measure length") simp_all

declare inflate_stored.simps [simp del]

text \<open>The header check of fflate, then the blocks; the checksum is not verified.\<close>

definition sample_unzlibSync :: "bytes \<Rightarrow> thrown + bytes" where
  "sample_unzlibSync bs =
     (case bs of
        cmf # flg # r \<Rightarrow>
          if uint cmf mod 16 \<noteq> 8 \<or> 7 < uint cmf div 16
             \<or> (uint cmf * 256 + uint flg) mod 31 \<noteq> 0 \<or> (uint flg div 32) mod 2 = 1
          then Inl (Error ''invalid zlib data'')
          else inflate_stored (rev (drop 4 (rev r)))
      | _ \<Rightarrow> Inl (Error ''invalid zlib data''))"

subsection \<open>The other modules\<close>

text \<open>UTF-8 on ASCII text: one byte for each character.\<close>

definition sample_stringToUint8Array :: "string \<Rightarrow> bytes" where
  "sample_stringToUint8Array t = map (\<lambda>ch. of_nat (of_char ch)) t"

definition sample_uint8ArrayToString :: "bytes \<Rightarrow> string" where
  "sample_uint8ArrayToString bs = map (\<lambda>b. char_of (unat b)) bs"

definition sample_env :: env where
  "sample_env =
     \<lparr>JSON_parse = sample_JSON_parse,
      JSON_stringify = sample_JSON_stringify,
      encode = sample_encode,
      zlibSync = sample_zlibSync,
      unzlibSync = sample_unzlibSync,
      stringToUint8Array = sample_stringToUint8Array,
      uint8ArrayToString = sample_uint8ArrayToString,
      uint8ArrayToBase64 = sample_uint8ArrayToBase64,
      base64ToUint8Array = sample_base64ToUint8Array\<rparr>"

definition sample_tokenizer :: tokenizer_module where
  "sample_tokenizer = \<lparr>tokenizer_encode = map of_char\<rparr>"

definition sample_yaml :: yaml_module where
  "sample_yaml =
     \<lparr>yaml_parse = (\<lambda>t. if t = ''a: 2'' then Inr doc_a2
                         else Inl (Error ''YAMLParseError'')),
      yaml_stringify = (\<lambda>d i. if d = doc_a1 then Inr (''a: 1'' @ nl)
                               else if d = doc_a2 then Inr (''a: 2'' @ nl)
                               else if d = rows_ab \<and> i = 2
                               then Inr (''- a: 1'' @ nl @ ''  b: 2'' @ nl)
                               else Inl (Error ''outside the sample''))\<rparr>"

text \<open>
  CSV texts: \<open>csv_a1\<close>, \<open>csv_a2\<close> and \<open>csv_ab\<close> are what \<^verbatim>\<open>unparse\<close> writes for the one-row
  lists of \<open>doc_a1\<close>, \<open>doc_a2\<close> and \<open>doc_ab\<close>. \<open>csv_open_quote\<close> is the header line
  \<^verbatim>\<open>a,b\<close> and a record whose second field opens a quote and never closes it. papaparse
  does not throw on it: it returns the row it could read and reports the unterminated
  quote in \<^verbatim>\<open>errors\<close>. With \<^verbatim>\<open>dynamicTyping\<close> the fields \<^verbatim>\<open>1\<close> and \<^verbatim>\<open>2\<close> are numbers, without it
  they are strings.
\<close>

definition csv_a1 :: string where
  "csv_a1 = ''a'' @ crlf @ ''1''"

definition csv_a2 :: string where
  "csv_a2 = ''a'' @ crlf @ ''2''"

definition csv_ab :: string where
  "csv_ab = ''a,b'' @ crlf @ ''1,2''"

definition csv_open_quote :: string where
  "csv_open_quote = ''a,b'' @ nl @ ''1,'' @ [dq] @ ''2''"

definition csv_rows :: "bool \<Rightarrow> json" where
  "csv_rows typed =
     (if typed then rows_ab else JArr [JObj [(''a'', JStr ''1''), (''b'', JStr ''2'')]])"

definition sample_papa :: papa_module where
  "sample_papa =
     \<lparr>papa_parse = (\<lambda>t cfg.
        if t = csv_open_quote \<and> header cfg
        then Inr \<lparr>data = csv_rows (dynamicTyping cfg),
                  errors = [''Quoted field unterminated'']\<rparr>
        else if t = csv_ab \<and> header cfg
        then Inr \<lparr>data = csv_rows (dynamicTyping cfg), errors = []\<rparr>
        else Inl (Error ''outside the sample'')),
      papa_unparse = (\<lambda>d. if d = JArr [doc_a1] then Inr csv_a1
                          else if d = JArr [doc_a2] then Inr csv_a2
                          else if d = rows_ab then Inr csv_ab
                          else Inl (Error ''outside the sample''))\<rparr>"

text \<open>
  The state once the modules are loaded and \<^verbatim>\<open>syncOutputs\<close> has run on the JSON text
  \<open>json_a1\<close>, with the JSON editor active.
\<close>

definition sample_state :: pg_state where
  "sample_state =
     \<lparr>jsonInput = json_a1, yamlInput = ''a: 1'' @ nl, csvInput = csv_a1,
      delimiter = Comma, indent = 2, hasCopiedUrl = False, activeEditor = Ejson,
      tokenizer = Some sample_tokenizer, yaml = Some sample_yaml, papa = Some sample_papa\<rparr>"

section \<open>Notions used in the statements\<close>

text \<open>
  The text a pane displays and the token count it shows are the \<^verbatim>\<open>output\<close> and
  \<^verbatim>\<open>tokens\<close> fields of its entry in \<^verbatim>\<open>formats\<close>: the template binds the text area and
  the statistics line to them.
\<close>

definition pane_text :: "env \<Rightarrow> pg_state \<Rightarrow> format_id \<Rightarrow> string" where
  "pane_text E s f =
     (case find (\<lambda>x. fid x = f) (formats E s) of
        Some x \<Rightarrow> outputText x
      | None \<Rightarrow> [])"

definition pane_tokens :: "env \<Rightarrow> pg_state \<Rightarrow> format_id \<Rightarrow> nat option" where
  "pane_tokens E s f =
     (case find (\<lambda>x. fid x = f) (formats E s) of
        Some x \<Rightarrow> tokens x
      | None \<Rightarrow> None)"

text \<open>The ref that \<^verbatim>\<open>updateEditorInput\<close> writes for an editor.\<close>

definition buffer :: "editor_id \<Rightarrow> pg_state \<Rightarrow> string" where
  "buffer e s =
     (case e of Ejson \<Rightarrow> jsonInput s | Eyaml \<Rightarrow> yamlInput s | Ecsv \<Rightarrow> csvInput s)"

text \<open>
  A second state with the session fields and modules of \<open>sample_state\<close>, but another
  active editor, another YAML buffer and no tokenizer.
\<close>

definition other_state :: pg_state where
  "other_state =
     sample_state\<lparr>yamlInput := ''a: 2'', hasCopiedUrl := True,
                  activeEditor := Eyaml, tokenizer := None\<rparr>"

text \<open>The sample state with the JSON text of the list \<open>rows_ab\<close>.\<close>

definition rows_state :: pg_state where
  "rows_state = sample_state\<lparr>jsonInput := json_rows_pretty\<rparr>"

section \<open>Basic facts\<close>

lemma delimiter_string_inject:
  "delimiter_string d = delimiter_string d' \<longleftrightarrow> d = d'"
  by (cases d; cases d') simp_all

lemma parsedJson_cong:
  "jsonInput s = jsonInput s' \<Longrightarrow> parsedJson E s = parsedJson E s'"
  by (simp add: parsedJson_def)

lemma pane_text_simps:
  "pane_text E s Fjson = jsonInput s"
  "pane_text E s Ftoon = toonOutput E s"
  "pane_text E s Fyaml = yamlOutput E s"
  "pane_text E s Fcsv = csvOutput E s"
  by (simp_all add: pane_text_def formats_def)

lemma pane_tokens_simps:
  "pane_tokens E s Fjson = jsonTokens s"
  "pane_tokens E s Ftoon = toonTokens E s"
  "pane_tokens E s Fyaml = yamlTokens E s"
  "pane_tokens E s Fcsv = csvTokens E s"
  by (simp_all add: pane_tokens_def formats_def)

lemma syncOutputs_error:
  "has_error (parsedJson E s) \<Longrightarrow> syncOutputs E s = (Normal, s)"
  by (simp add: syncOutputs_def)

lemma syncOutputs_inactive:
  "activeEditor s \<noteq> Ejson \<Longrightarrow> syncOutputs E s = (Normal, s)"
  by (simp add: syncOutputs_def)

lemma sync_yaml_frame:
  "jsonInput (snd (sync_yaml E s)) = jsonInput s"
  "csvInput (snd (sync_yaml E s)) = csvInput s"
  "activeEditor (snd (sync_yaml E s)) = activeEditor s"
  "papa (snd (sync_yaml E s)) = papa s"
  by (simp_all add: sync_yaml_def split: option.splits sum.splits)

lemma sync_csv_frame:
  "jsonInput (snd (sync_csv E s)) = jsonInput s"
  "yamlInput (snd (sync_csv E s)) = yamlInput s"
  "activeEditor (snd (sync_csv E s)) = activeEditor s"
  by (simp_all add: sync_csv_def Let_def split: option.splits sum.splits)

lemma syncOutputs_frame:
  "jsonInput (snd (syncOutputs E s)) = jsonInput s"
  "activeEditor (snd (syncOutputs E s)) = activeEditor s"
proof -
  obtain c s1 where y: "sync_yaml E s = (c, s1)"
    by (cases "sync_yaml E s")
  have s1: "jsonInput s1 = jsonInput s" "activeEditor s1 = activeEditor s"
    using sync_yaml_frame(1) [of E s] sync_yaml_frame(3) [of E s] y by simp_all
  show "jsonInput (snd (syncOutputs E s)) = jsonInput s"
    using y s1 by (cases c) (simp_all add: syncOutputs_def sync_csv_frame)
  show "activeEditor (snd (syncOutputs E s)) = activeEditor s"
    using y s1 by (cases c) (simp_all add: syncOutputs_def sync_csv_frame)
qed

lemma parseInput_yaml_frame:
  "fst (parseInput_yaml E v s) = Normal"
  "yamlInput (snd (parseInput_yaml E v s)) = yamlInput s"
  "csvInput (snd (parseInput_yaml E v s)) = csvInput s"
  "activeEditor (snd (parseInput_yaml E v s)) = activeEditor s"
  by (simp_all add: parseInput_yaml_def catch_ignore_def split: option.splits sum.splits)

lemma parseInput_csv_frame:
  "fst (parseInput_csv E v s) = Normal"
  "yamlInput (snd (parseInput_csv E v s)) = yamlInput s"
  "csvInput (snd (parseInput_csv E v s)) = csvInput s"
  "activeEditor (snd (parseInput_csv E v s)) = activeEditor s"
  by (simp_all add: parseInput_csv_def catch_ignore_def split: option.splits sum.splits)

lemma parsedJson_yamlInput [simp]:
  "parsedJson E (s\<lparr>yamlInput := v\<rparr>) = parsedJson E s"
  by (simp add: parsedJson_def)

lemma parsedJson_csvInput [simp]:
  "parsedJson E (s\<lparr>csvInput := v\<rparr>) = parsedJson E s"
  by (simp add: parsedJson_def)

lemma outputs_yamlInput [simp]:
  "toonOutput E (s\<lparr>yamlInput := v\<rparr>) = toonOutput E s"
  "yamlOutput E (s\<lparr>yamlInput := v\<rparr>) = yamlOutput E s"
  "csvOutput E (s\<lparr>yamlInput := v\<rparr>) = csvOutput E s"
  by (simp_all add: toonOutput_def yamlOutput_def csvOutput_def split: option.splits)

lemma outputs_csvInput [simp]:
  "toonOutput E (s\<lparr>csvInput := v\<rparr>) = toonOutput E s"
  "yamlOutput E (s\<lparr>csvInput := v\<rparr>) = yamlOutput E s"
  "csvOutput E (s\<lparr>csvInput := v\<rparr>) = csvOutput E s"
  by (simp_all add: toonOutput_def yamlOutput_def csvOutput_def split: option.splits)

lemma yaml_event_failed:
  assumes "activeEditor s = Eyaml" and "yaml s = Some y" and "yaml_parse y v = Inl e"
  shows "input_event E Fyaml v s = ([Normal, Normal, Normal, Normal], s\<lparr>yamlInput := v\<rparr>)"
  using assms
  by (simp add: input_event_def flush_def updateEditorInput_def watch_yamlInput_def
      parseInput_yaml_def catch_ignore_def Let_def)

lemma csv_event_rows:
  assumes "activeEditor s = Ecsv" and "papa s = Some p"
    and "papa_parse p v \<lparr>header = True, dynamicTyping = True\<rparr> = Inr r"
    and "truthy (data r)" and "csvInput s \<noteq> v"
  shows "input_event E Fcsv v s
     = ([Normal, Normal, Normal, Normal],
        s\<lparr>csvInput := v, jsonInput := JSON_stringify E (data r) 2\<rparr>)"
  using assms
  by (simp add: input_event_def flush_def updateEditorInput_def watch_csvInput_def
      parseInput_csv_def catch_ignore_def watch_jsonInput_def syncOutputs_inactive Let_def)

lemma watch_yamlInput_frame:
  "fst (watch_yamlInput E s) = Normal"
  "yamlInput (snd (watch_yamlInput E s)) = yamlInput s"
  "csvInput (snd (watch_yamlInput E s)) = csvInput s"
  "activeEditor (snd (watch_yamlInput E s)) = activeEditor s"
  by (simp_all add: watch_yamlInput_def parseInput_yaml_frame)

lemma watch_csvInput_frame:
  "fst (watch_csvInput E s) = Normal"
  "yamlInput (snd (watch_csvInput E s)) = yamlInput s"
  "csvInput (snd (watch_csvInput E s)) = csvInput s"
  "activeEditor (snd (watch_csvInput E s)) = activeEditor s"
  by (simp_all add: watch_csvInput_def parseInput_csv_frame)

lemma watch_inactive:
  "activeEditor s \<noteq> Eyaml \<Longrightarrow> watch_yamlInput E s = (Normal, s)"
  "activeEditor s \<noteq> Ecsv \<Longrightarrow> watch_csvInput E s = (Normal, s)"
  "activeEditor s \<noteq> Ejson \<Longrightarrow> watch_jsonInput E s = (Normal, s)"
  by (simp_all add: watch_yamlInput_def watch_csvInput_def watch_jsonInput_def
      syncOutputs_inactive)

lemma json_event_buffer:
  assumes "activeEditor s = Ejson"
  shows "jsonInput (snd (input_event E Fjson v s)) = v
    \<and> activeEditor (snd (input_event E Fjson v s)) = Ejson"
proof (cases "v = jsonInput s")
  case True
  with assms show ?thesis
    by (simp add: input_event_def flush_def updateEditorInput_def Let_def)
next
  case False
  define s2 where "s2 = snd (syncOutputs E (s\<lparr>jsonInput := v\<rparr>))"
  have a: "activeEditor s2 = Ejson" and j: "jsonInput s2 = v"
    using assms by (simp_all add: s2_def syncOutputs_frame)
  have w: "watch_yamlInput E s2 = (Normal, s2)" "watch_csvInput E s2 = (Normal, s2)"
    using a by (simp_all add: watch_inactive)
  have "snd (input_event E Fjson v s) = s2"
    using False j w
    by (simp add: input_event_def flush_def updateEditorInput_def watch_jsonInput_def
        Let_def s2_def [symmetric])
  with a j show ?thesis by simp
qed

lemma yaml_event_buffer:
  assumes "activeEditor s = Eyaml"
  shows "yamlInput (snd (input_event E Fyaml v s)) = v
    \<and> activeEditor (snd (input_event E Fyaml v s)) = Eyaml"
proof (cases "v = yamlInput s")
  case True
  with assms show ?thesis
    by (simp add: input_event_def flush_def updateEditorInput_def Let_def)
next
  case False
  define s2 where "s2 = snd (watch_yamlInput E (s\<lparr>yamlInput := v\<rparr>))"
  have a: "activeEditor s2 = Eyaml" and y: "yamlInput s2 = v"
    and c: "csvInput s2 = csvInput s"
    using assms by (simp_all add: s2_def watch_yamlInput_frame)
  have w: "watch_jsonInput E s2 = (Normal, s2)"
    using a by (simp add: watch_inactive)
  have "snd (input_event E Fyaml v s) = s2"
    using False c w
    by (simp add: input_event_def flush_def updateEditorInput_def Let_def
        s2_def [symmetric])
  with a y show ?thesis by simp
qed

lemma csv_event_buffer:
  assumes "activeEditor s = Ecsv"
  shows "csvInput (snd (input_event E Fcsv v s)) = v
    \<and> activeEditor (snd (input_event E Fcsv v s)) = Ecsv"
proof (cases "v = csvInput s")
  case True
  with assms show ?thesis
    by (simp add: input_event_def flush_def updateEditorInput_def Let_def)
next
  case False
  define s2 where "s2 = snd (watch_csvInput E (s\<lparr>csvInput := v\<rparr>))"
  have a: "activeEditor s2 = Ecsv" and c: "csvInput s2 = v"
    using assms by (simp_all add: s2_def watch_csvInput_frame)
  have w: "watch_jsonInput E s2 = (Normal, s2)"
    using a by (simp add: watch_inactive)
  have "snd (input_event E Fcsv v s) = s2"
    using False w
    by (simp add: input_event_def flush_def updateEditorInput_def Let_def
        s2_def [symmetric])
  with a c show ?thesis by simp
qed

lemma syncOutputs_buffer:
  "buffer (activeEditor s) (snd (syncOutputs E s)) = buffer (activeEditor s) s"
proof (cases "activeEditor s")
  case Ejson
  then show ?thesis by (simp add: buffer_def syncOutputs_frame)
next
  case Eyaml
  then show ?thesis by (simp add: syncOutputs_inactive)
next
  case Ecsv
  then show ?thesis by (simp add: syncOutputs_inactive)
qed

section \<open>The cost calculator\<close>

text \<open>The nearest double to one tenth, and a product that rounds back to an integer.\<close>

lemma to_double_tenth: "to_double (1 / 10) = 3602879701896397 / 2 ^ 55"
  by code_simp

lemma js_mul_fifth: "js_mul (js_div 20 100) 100 = 20"
  by code_simp

text \<open>
  C6. For positive token counts \<open>b\<close> (base) and \<open>c\<close> (compare), \<^verbatim>\<open>calculateSavings\<close>
  returns a record whose \<open>diff\<close> is \<open>b - c\<close>, whose \<open>percent\<close> is the absolute value of
  \<open>diff / b * 100\<close> (computed with JavaScript numbers) formatted by \<^verbatim>\<open>toFixed(1)\<close>, whose
  \<open>sign\<close> is \<^verbatim>\<open>'-'\<close> exactly when \<open>diff > 0\<close> and \<^verbatim>\<open>'+'\<close> otherwise, and whose flag
  \<open>isSavings\<close> (the specification's \<^verbatim>\<open>isImprovement\<close>) holds exactly when \<open>diff > 0\<close>. In
  particular the results for \<open>(100, 80)\<close> and \<open>(80, 100)\<close> are the ones the specification
  lists.
\<close>

theorem calculateSavings_positive:
  "(0 < b \<longrightarrow> 0 < c \<longrightarrow>
      (\<exists>r. calculateSavings (Some b) (Some c) = Some r
         \<and> diff r = int b - int c
         \<and> percent r = toFixed1 \<bar>js_mul (js_div (of_int (diff r)) (of_nat b)) 100\<bar>
         \<and> (sign r = Minus \<longleftrightarrow> 0 < diff r)
         \<and> (sign r = Plus \<longleftrightarrow> \<not> 0 < diff r)
         \<and> (isSavings r \<longleftrightarrow> 0 < diff r)))
   \<and> calculateSavings (Some 100) (Some 80)
       = Some \<lparr>diff = 20, percent = ''20.0'', sign = Minus, isSavings = True\<rparr>
   \<and> calculateSavings (Some 80) (Some 100)
       = Some \<lparr>diff = - 20, percent = ''25.0'', sign = Plus, isSavings = False\<rparr>"
proof (intro conjI impI)
  assume "0 < b" and "0 < c"
  then show "\<exists>r. calculateSavings (Some b) (Some c) = Some r
         \<and> diff r = int b - int c
         \<and> percent r = toFixed1 \<bar>js_mul (js_div (of_int (diff r)) (of_nat b)) 100\<bar>
         \<and> (sign r = Minus \<longleftrightarrow> 0 < diff r)
         \<and> (sign r = Plus \<longleftrightarrow> \<not> 0 < diff r)
         \<and> (isSavings r \<longleftrightarrow> 0 < diff r)"
    by (simp add: calculateSavings_def Let_def)
next
  show "calculateSavings (Some 100) (Some 80)
       = Some \<lparr>diff = 20, percent = ''20.0'', sign = Minus, isSavings = True\<rparr>"
    by code_simp
next
  show "calculateSavings (Some 80) (Some 100)
       = Some \<lparr>diff = - 20, percent = ''25.0'', sign = Plus, isSavings = False\<rparr>"
    by code_simp
qed

text \<open>At \<open>(400, 371)\<close> the quotient \<open>29 / 400\<close> is rounded below \<open>7.25\<close>: the badge shows 7.2.\<close>

theorem calculateSavings_positive_witness:
  "(0::nat) < 400 \<and> (0::nat) < 371
   \<and> (\<exists>r. calculateSavings (Some 400) (Some 371) = Some r
         \<and> diff r = 29 \<and> percent r = ''7.2'' \<and> sign r = Minus \<and> isSavings r)"
proof -
  have p: "toFixed1 \<bar>js_mul (js_div (of_int 29) (of_nat 400)) 100\<bar> = ''7.2''"
    by code_simp
  from calculateSavings_positive [of 400 371]
  obtain r where r: "calculateSavings (Some 400) (Some 371) = Some r"
      "diff r = int 400 - int 371"
      "percent r = toFixed1 \<bar>js_mul (js_div (of_int (diff r)) (of_nat 400)) 100\<bar>"
      "sign r = Minus \<longleftrightarrow> 0 < diff r" "isSavings r \<longleftrightarrow> 0 < diff r"
    by auto
  from r(2) have d: "diff r = 29" by simp
  with r p have "percent r = ''7.2''" "sign r = Minus" "isSavings r"
    by simp_all
  with r(1) d show ?thesis by simp
qed

text \<open>
  C7. \<^verbatim>\<open>calculateSavings\<close> returns \<^verbatim>\<open>undefined\<close> when either count is zero or absent;
  whenever it returns a result, both counts are present and non-zero, so the division
  by the base count is never a division by zero.
\<close>

theorem calculateSavings_undefined:
  "calculateSavings (Some 0) x = None
   \<and> calculateSavings x (Some 0) = None
   \<and> calculateSavings None x = None
   \<and> calculateSavings x None = None
   \<and> (calculateSavings x y = Some r \<longrightarrow>
        (\<exists>b c. x = Some b \<and> y = Some c \<and> b \<noteq> 0 \<and> c \<noteq> 0))"
  by (simp add: calculateSavings_def split: option.splits)

theorem calculateSavings_undefined_witness:
  "calculateSavings (Some 100) (Some 80)
     = Some \<lparr>diff = 20, percent = ''20.0'', sign = Minus, isSavings = True\<rparr>
   \<and> (\<exists>b c. Some (100::nat) = Some b \<and> Some (80::nat) = Some c \<and> b \<noteq> 0 \<and> c \<noteq> 0)"
proof -
  have e: "calculateSavings (Some 100) (Some 80)
     = Some \<lparr>diff = 20, percent = ''20.0'', sign = Minus, isSavings = True\<rparr>"
    by code_simp
  with calculateSavings_undefined [of "Some 100" "Some 80"
      "\<lparr>diff = 20, percent = ''20.0'', sign = Minus, isSavings = True\<rparr>"]
  show ?thesis by blast
qed

section \<open>The share-state codec\<close>

text \<open>
  C1. Decoding the share token of a session gives back the session: the decoded value is
  the object whose \<^verbatim>\<open>json\<close>, \<^verbatim>\<open>delimiter\<close> and \<^verbatim>\<open>indent\<close> properties are the JSON text, the
  delimiter character and the indentation of the state that was encoded. The imported
  codecs are parameters, so their contracts are hypotheses, each needed only at the
  value the session produces: the JSON text of the object parses back to the object and
  is not empty, the UTF-8 decoder inverts the encoder, \<^verbatim>\<open>unzlibSync\<close> inverts \<^verbatim>\<open>zlibSync\<close>,
  and \<^verbatim>\<open>base64ToUint8Array\<close> inverts the URL-safe \<^verbatim>\<open>uint8ArrayToBase64\<close>.
\<close>

theorem decodeState_encodeState:
  assumes st:
    "st = JObj [(''json'', JStr (jsonInput s)),
                (''delimiter'', JStr (delimiter_string (delimiter s))),
                (''indent'', JNum (of_int (indent s)))]"
  and json_rt: "JSON_parse E (JSON_stringify E st 0) = Inr st"
  and nonempty: "JSON_stringify E st 0 \<noteq> []"
  and utf8_rt:
    "uint8ArrayToString E (stringToUint8Array E (JSON_stringify E st 0))
       = JSON_stringify E st 0"
  and zlib_rt:
    "unzlibSync E (zlibSync E (stringToUint8Array E (JSON_stringify E st 0)))
       = Inr (stringToUint8Array E (JSON_stringify E st 0))"
  and base64_rt:
    "base64ToUint8Array E
        (uint8ArrayToBase64 E (zlibSync E (stringToUint8Array E (JSON_stringify E st 0))) True)
       = Inr (zlibSync E (stringToUint8Array E (JSON_stringify E st 0)))"
  shows "\<exists>d. decodeState E (encodeState E s) = Inr (Some d)
    \<and> d = JObj [(''json'', JStr (jsonInput s)),
                (''delimiter'', JStr (delimiter_string (delimiter s))),
                (''indent'', JNum (of_int (indent s)))]
    \<and> property d ''json'' = Some (JStr (jsonInput s))
    \<and> property d ''delimiter'' = Some (JStr (delimiter_string (delimiter s)))
    \<and> property d ''indent'' = Some (JNum (of_int (indent s)))"
proof -
  have "encodeState E s
      = uint8ArrayToBase64 E (zlibSync E (stringToUint8Array E (JSON_stringify E st 0))) True"
    by (simp add: encodeState_def st)
  then have "decodeState E (encodeState E s) = Inr (Some st)"
    using json_rt nonempty utf8_rt zlib_rt base64_rt
    by (simp add: decodeState_def decodeState_body_def)
  then show ?thesis
    by (simp add: st)
qed

text \<open>
  The sample session: the token is a zlib stream in URL-safe base64, and it decodes to
  the object with the JSON text \<open>json_a1\<close>, the comma and the indentation two.
\<close>

theorem decodeState_encodeState_witness:
  "encodeState sample_env sample_state
     = ''eAEBLwDQ_3sianNvbiI6IntcImFcIjoxfSIsImRlbGltaXRlciI6IiwiLCJpbmRlbnQiOjJ9XHIObA''
   \<and> decodeState sample_env (encodeState sample_env sample_state)
     = Inr (Some (JObj [(''json'', JStr json_a1), (''delimiter'', JStr '',''),
                        (''indent'', JNum 2)]))"
proof -
  have tok: "encodeState sample_env sample_state
     = ''eAEBLwDQ_3sianNvbiI6IntcImFcIjoxfSIsImRlbGltaXRlciI6IiwiLCJpbmRlbnQiOjJ9XHIObA''"
    by code_simp
  have st: "sample_session
      = JObj [(''json'', JStr (jsonInput sample_state)),
              (''delimiter'', JStr (delimiter_string (delimiter sample_state))),
              (''indent'', JNum (of_int (indent sample_state)))]"
    by (simp add: sample_session_def sample_state_def)
  have t: "JSON_stringify sample_env sample_session 0 = json_state"
    by (simp add: sample_env_def sample_JSON_stringify_def)
  have 1: "JSON_parse sample_env json_state = Inr sample_session"
    by code_simp
  have 2: "json_state \<noteq> []"
    by code_simp
  have 3: "uint8ArrayToString sample_env (stringToUint8Array sample_env json_state) = json_state"
    by code_simp
  have 4: "unzlibSync sample_env (zlibSync sample_env (stringToUint8Array sample_env json_state))
      = Inr (stringToUint8Array sample_env json_state)"
    by code_simp
  have 5: "base64ToUint8Array sample_env (uint8ArrayToBase64 sample_env
       (zlibSync sample_env (stringToUint8Array sample_env json_state)) True)
      = Inr (zlibSync sample_env (stringToUint8Array sample_env json_state))"
    by code_simp
  have f: "jsonInput sample_state = json_a1" "delimiter sample_state = Comma"
    "indent sample_state = 2"
    by (simp_all add: sample_state_def)
  from decodeState_encodeState [where E = sample_env, OF st, unfolded t, OF 1 2 3 4 5]
  have "decodeState sample_env (encodeState sample_env sample_state)
     = Inr (Some (JObj [(''json'', JStr json_a1), (''delimiter'', JStr '',''),
                        (''indent'', JNum 2)]))"
    by (auto simp add: f)
  with tok show ?thesis by simp
qed

text \<open>
  C2. \<^verbatim>\<open>decodeState\<close> never raises: for every token it returns a value, and that value
  is \<^verbatim>\<open>undefined\<close> whenever the base64 step, the decompression or the JSON parse fails.
\<close>

theorem decodeState_never_raises:
  "(\<exists>r. decodeState E hash = Inr r)
   \<and> (base64ToUint8Array E hash = Inl e1 \<longrightarrow> decodeState E hash = Inr None)
   \<and> (base64ToUint8Array E hash = Inr bs \<longrightarrow> unzlibSync E bs = Inl e2
        \<longrightarrow> decodeState E hash = Inr None)
   \<and> (base64ToUint8Array E hash = Inr bs \<longrightarrow> unzlibSync E bs = Inr d
        \<longrightarrow> JSON_parse E (uint8ArrayToString E d) = Inl e3
        \<longrightarrow> decodeState E hash = Inr None)"
  by (simp add: decodeState_def decodeState_body_def Let_def split: sum.splits)

theorem decodeState_never_raises_witness:
  "base64ToUint8Array sample_env ''!'' = Inl (Error ''InvalidCharacterError'')
   \<and> decodeState sample_env ''!'' = Inr None
   \<and> base64ToUint8Array sample_env ''TQ'' = Inr [0x4D]
   \<and> unzlibSync sample_env [0x4D] = Inl (Error ''invalid zlib data'')
   \<and> decodeState sample_env ''TQ'' = Inr None
   \<and> base64ToUint8Array sample_env ''eAEBAQD-_3sAfAB8''
        = Inr [0x78, 0x01, 0x01, 0x01, 0x00, 0xFE, 0xFF, 0x7B, 0x00, 0x7C, 0x00, 0x7C]
   \<and> unzlibSync sample_env
          [0x78, 0x01, 0x01, 0x01, 0x00, 0xFE, 0xFF, 0x7B, 0x00, 0x7C, 0x00, 0x7C]
        = Inr [0x7B]
   \<and> JSON_parse sample_env (uint8ArrayToString sample_env [0x7B])
        = Inl (Error ''Unexpected end of JSON input'')
   \<and> decodeState sample_env ''eAEBAQD-_3sAfAB8'' = Inr None"
proof -
  let ?z = "[0x78, 0x01, 0x01, 0x01, 0x00, 0xFE, 0xFF, 0x7B, 0x00, 0x7C, 0x00, 0x7C] :: bytes"
  have a: "base64ToUint8Array sample_env ''!'' = Inl (Error ''InvalidCharacterError'')"
    by code_simp
  have b: "base64ToUint8Array sample_env ''TQ'' = Inr [0x4D]"
    by code_simp
  have c: "unzlibSync sample_env [0x4D] = Inl (Error ''invalid zlib data'')"
    by code_simp
  have d: "base64ToUint8Array sample_env ''eAEBAQD-_3sAfAB8'' = Inr ?z"
    by code_simp
  have e: "unzlibSync sample_env ?z = Inr [0x7B]"
    by code_simp
  have f: "JSON_parse sample_env (uint8ArrayToString sample_env [0x7B])
        = Inl (Error ''Unexpected end of JSON input'')"
    by code_simp
  from decodeState_never_raises [of sample_env "''!''" "Error ''InvalidCharacterError''"] a
  have 1: "decodeState sample_env ''!'' = Inr None" by blast
  from decodeState_never_raises
    [of sample_env "''TQ''" _ "[0x4D]" "Error ''invalid zlib data''"] b c
  have 2: "decodeState sample_env ''TQ'' = Inr None" by blast
  from decodeState_never_raises
    [of sample_env "''eAEBAQD-_3sAfAB8''" _ ?z _ "[0x7B]"
      "Error ''Unexpected end of JSON input''"] d e f
  have 3: "decodeState sample_env ''eAEBAQD-_3sAfAB8'' = Inr None" by blast
  from a b c d e f 1 2 3 show ?thesis by blast
qed

section \<open>Determinism\<close>

text \<open>
  C10. The derived TOON, YAML and CSV texts and the share token are functions of the
  JSON text, the delimiter, the indentation and the loaded modules alone: two states
  that agree on these give equal outputs and equal tokens, whatever their active
  editor, buffers and tokenizer are.
\<close>

theorem outputs_depend_on_session_only:
  assumes "jsonInput s = jsonInput s'" and "delimiter s = delimiter s'"
    and "indent s = indent s'" and "yaml s = yaml s'" and "papa s = papa s'"
  shows "toonOutput E s = toonOutput E s' \<and> yamlOutput E s = yamlOutput E s'
    \<and> csvOutput E s = csvOutput E s' \<and> encodeState E s = encodeState E s'"
proof -
  have p: "parsedJson E s = parsedJson E s'"
    using assms(1) by (rule parsedJson_cong)
  have "toonOutput E s = toonOutput E s'"
    by (simp add: toonOutput_def p assms(2) assms(3))
  moreover have "yamlOutput E s = yamlOutput E s'"
    by (simp add: yamlOutput_def p assms(3) assms(4) split: option.splits)
  moreover have "csvOutput E s = csvOutput E s'"
    by (simp add: csvOutput_def p assms(5) split: option.splits)
  moreover have "encodeState E s = encodeState E s'"
    by (simp add: encodeState_def assms(1) assms(2) assms(3))
  ultimately show ?thesis by simp
qed

theorem outputs_depend_on_session_only_witness:
  "activeEditor sample_state \<noteq> activeEditor other_state
   \<and> yamlInput sample_state \<noteq> yamlInput other_state
   \<and> toonOutput sample_env sample_state = toonOutput sample_env other_state
   \<and> yamlOutput sample_env sample_state = yamlOutput sample_env other_state
   \<and> csvOutput sample_env sample_state = csvOutput sample_env other_state
   \<and> encodeState sample_env sample_state = encodeState sample_env other_state"
proof -
  have "activeEditor sample_state \<noteq> activeEditor other_state"
    "yamlInput sample_state \<noteq> yamlInput other_state"
    by (simp_all add: other_state_def sample_state_def nl_def)
  moreover have "jsonInput sample_state = jsonInput other_state"
    "delimiter sample_state = delimiter other_state"
    "indent sample_state = indent other_state"
    "yaml sample_state = yaml other_state"
    "papa sample_state = papa other_state"
    by (simp_all add: other_state_def)
  ultimately show ?thesis
    using outputs_depend_on_session_only [of sample_state other_state sample_env]
    by blast
qed

section \<open>Synchronization\<close>

text \<open>
  C3, as the specification states it, does not hold: when the JSON text stops parsing,
  the derived texts are not kept. In the sample state the panes show the TOON, YAML and
  CSV texts of the document \<^verbatim>\<open>{a: 1}\<close>; after the JSON text is cut off behind the
  colon, all three are empty.
\<close>

theorem derived_text_not_frozen:
  "has_error (parsedJson sample_env (snd (input_event sample_env Fjson json_cut sample_state)))
   \<and> pane_text sample_env sample_state Ftoon = ''a: 1''
   \<and> pane_text sample_env (snd (input_event sample_env Fjson json_cut sample_state)) Ftoon = []
   \<and> pane_text sample_env sample_state Fyaml = ''a: 1'' @ nl
   \<and> pane_text sample_env (snd (input_event sample_env Fjson json_cut sample_state)) Fyaml = []
   \<and> pane_text sample_env sample_state Fcsv = csv_a1
   \<and> pane_text sample_env (snd (input_event sample_env Fjson json_cut sample_state)) Fcsv = []"
  by code_simp

text \<open>
  C3, amended. When an edit gives a JSON text that fails to parse, the TOON, YAML and
  CSV texts are empty for as long as the text fails to parse. The edit changes no ref
  besides \<^verbatim>\<open>jsonInput\<close>: \<^verbatim>\<open>syncOutputs\<close> returns at once, so the \<^verbatim>\<open>yamlInput\<close> and \<^verbatim>\<open>csvInput\<close>
  buffers keep what the last successful pass wrote, and no callback throws.
\<close>

theorem outputs_empty_on_parse_error:
  assumes "has_error (parsedJson E (s\<lparr>jsonInput := v\<rparr>))"
  shows "input_event E Fjson v s = ([Normal, Normal, Normal, Normal], s\<lparr>jsonInput := v\<rparr>)
    \<and> toonOutput E (s\<lparr>jsonInput := v\<rparr>) = []
    \<and> yamlOutput E (s\<lparr>jsonInput := v\<rparr>) = []
    \<and> csvOutput E (s\<lparr>jsonInput := v\<rparr>) = []"
proof -
  have "syncOutputs E (s\<lparr>jsonInput := v\<rparr>) = (Normal, s\<lparr>jsonInput := v\<rparr>)"
    using assms by (rule syncOutputs_error)
  then have "input_event E Fjson v s
      = ([Normal, Normal, Normal, Normal], s\<lparr>jsonInput := v\<rparr>)"
    by (simp add: input_event_def flush_def updateEditorInput_def watch_jsonInput_def)
  moreover have "toonOutput E (s\<lparr>jsonInput := v\<rparr>) = []"
    using assms by (simp add: toonOutput_def)
  moreover have "yamlOutput E (s\<lparr>jsonInput := v\<rparr>) = []"
    using assms by (simp add: yamlOutput_def split: option.splits)
  moreover have "csvOutput E (s\<lparr>jsonInput := v\<rparr>) = []"
    using assms by (simp add: csvOutput_def split: option.splits)
  ultimately show ?thesis by simp
qed

theorem outputs_empty_on_parse_error_witness:
  "has_error (parsedJson sample_env (sample_state\<lparr>jsonInput := json_cut\<rparr>))
   \<and> fst (input_event sample_env Fjson json_cut sample_state) = [Normal, Normal, Normal, Normal]
   \<and> yamlInput (snd (input_event sample_env Fjson json_cut sample_state)) = ''a: 1'' @ nl
   \<and> csvInput (snd (input_event sample_env Fjson json_cut sample_state)) = csv_a1
   \<and> toonOutput sample_env (sample_state\<lparr>jsonInput := json_cut\<rparr>) = []
   \<and> yamlOutput sample_env (sample_state\<lparr>jsonInput := json_cut\<rparr>) = []
   \<and> csvOutput sample_env (sample_state\<lparr>jsonInput := json_cut\<rparr>) = []"
proof -
  have h: "has_error (parsedJson sample_env (sample_state\<lparr>jsonInput := json_cut\<rparr>))"
    by code_simp
  have y: "yamlInput (sample_state\<lparr>jsonInput := json_cut\<rparr>) = ''a: 1'' @ nl"
    "csvInput (sample_state\<lparr>jsonInput := json_cut\<rparr>) = csv_a1"
    by (simp_all add: sample_state_def)
  from outputs_empty_on_parse_error [OF h] h y show ?thesis
    by simp
qed

text \<open>
  C4. Typing syntactically invalid text into the active YAML or CSV editor is to leave
  the JSON text, its parse result and the texts of the other panes unchanged.
  \<^verbatim>\<open>parseInput.yaml\<close> does so: a throw of the YAML parser is caught, and nothing but
  \<^verbatim>\<open>yamlInput\<close> changes (lemma \<open>yaml_event_failed\<close>). \<^verbatim>\<open>parseInput.csv\<close> is written the same
  way, with a \<^verbatim>\<open>try\<close> and a test of \<^verbatim>\<open>result.data\<close>, but papaparse does not throw on
  malformed text: it returns the rows it could read and lists the problems in
  \<^verbatim>\<open>result.errors\<close>, which \<^verbatim>\<open>parseInput.csv\<close> does not read. The code at such a text: with
  the CSV editor active, typing a record with an unterminated quote replaces the JSON
  text, and with it the TOON text.
\<close>

theorem invalid_csv_overwrites_json:
  "papa_parse sample_papa csv_open_quote \<lparr>header = True, dynamicTyping = True\<rparr>
     = Inr \<lparr>data = rows_ab, errors = [''Quoted field unterminated'']\<rparr>
   \<and> activeEditor (handleEditorFocus Fcsv sample_state) = Ecsv
   \<and> fst (input_event sample_env Fcsv csv_open_quote (handleEditorFocus Fcsv sample_state))
       = [Normal, Normal, Normal, Normal]
   \<and> pane_text sample_env (handleEditorFocus Fcsv sample_state) Fjson = json_a1
   \<and> pane_text sample_env
        (snd (input_event sample_env Fcsv csv_open_quote (handleEditorFocus Fcsv sample_state)))
        Fjson = json_rows_pretty
   \<and> json_rows_pretty \<noteq> json_a1
   \<and> pane_text sample_env (handleEditorFocus Fcsv sample_state) Ftoon = ''a: 1''
   \<and> pane_text sample_env
        (snd (input_event sample_env Fcsv csv_open_quote (handleEditorFocus Fcsv sample_state)))
        Ftoon = ''[1]{a,b}:'' @ nl @ ''  1,2''"
  by code_simp

text \<open>
  C5. The text of the representation that is being typed into is never to be replaced
  by derivation. The buffers are kept that way: \<^verbatim>\<open>syncOutputs\<close> runs only while the JSON
  editor is active and then writes \<^verbatim>\<open>yamlInput\<close> and \<^verbatim>\<open>csvInput\<close> only, and after an input
  event the buffer of the active editor holds the typed text (lemmas
  \<open>syncOutputs_buffer\<close>, \<open>json_event_buffer\<close>, \<open>yaml_event_buffer\<close>, \<open>csv_event_buffer\<close>).
  But \<^verbatim>\<open>formats\<close> gives the YAML and CSV panes the computed \<^verbatim>\<open>yamlOutput\<close> and \<^verbatim>\<open>csvOutput\<close>
  as their text, not these buffers, and the computed outputs are derived from the JSON
  text whichever editor is active. The code with the YAML editor active and showing the
  text of \<^verbatim>\<open>{a: 1}\<close>: typing \<^verbatim>\<open>a: 2\<close> rewrites the JSON text, and the YAML pane then
  displays the serialization of the new document, which ends in a line break the user
  did not type.
\<close>

theorem active_pane_text_rederived:
  "activeEditor (handleEditorFocus Fyaml sample_state) = Eyaml
   \<and> pane_text sample_env (handleEditorFocus Fyaml sample_state) Fyaml = ''a: 1'' @ nl
   \<and> activeEditor (snd (input_event sample_env Fyaml ''a: 2''
        (handleEditorFocus Fyaml sample_state))) = Eyaml
   \<and> pane_text sample_env (snd (input_event sample_env Fyaml ''a: 2''
        (handleEditorFocus Fyaml sample_state))) Fyaml = ''a: 2'' @ nl
   \<and> ''a: 2'' @ nl \<noteq> ''a: 2''"
  by code_simp

section \<open>Token counts\<close>

text \<open>
  C8, as the specification states it, does not hold for the JSON pane: \<^verbatim>\<open>jsonTokens\<close> has
  no test for an empty text, so with the tokenizer loaded an empty JSON text has the
  token count of the empty text, not \<^verbatim>\<open>undefined\<close>.
\<close>

theorem empty_json_text_has_token_count:
  "tokenizer (sample_state\<lparr>jsonInput := []\<rparr>) \<noteq> None
   \<and> pane_text sample_env (sample_state\<lparr>jsonInput := []\<rparr>) Fjson = []
   \<and> pane_tokens sample_env (sample_state\<lparr>jsonInput := []\<rparr>) Fjson = Some 0"
  by (simp add: pane_text_simps pane_tokens_simps jsonTokens_def calculateTokens_def
      sample_state_def sample_tokenizer_def)

text \<open>
  C8, amended. The token count of a pane is \<^verbatim>\<open>undefined\<close> whenever the tokenizer is not
  loaded, and for the TOON, YAML and CSV panes also whenever the text of the pane is
  empty. With the tokenizer loaded, the count of the JSON pane, and of any other pane
  with a non-empty text, is the length of the tokenizer's encoding of the pane's text.
\<close>

theorem token_counts:
  "(tokenizer s = None \<longrightarrow> pane_tokens E s f = None)
   \<and> (f \<noteq> Fjson \<longrightarrow> pane_text E s f = [] \<longrightarrow> pane_tokens E s f = None)
   \<and> (tokenizer s = Some t \<longrightarrow> f = Fjson \<or> pane_text E s f \<noteq> [] \<longrightarrow>
        pane_tokens E s f = Some (length (tokenizer_encode t (pane_text E s f))))"
  by (cases f)
    (simp_all add: pane_text_simps pane_tokens_simps jsonTokens_def toonTokens_def
      yamlTokens_def csvTokens_def calculateTokens_def)

theorem token_counts_witness:
  "tokenizer other_state = None \<and> pane_tokens sample_env other_state Fyaml = None
   \<and> Ftoon \<noteq> Fjson \<and> pane_text sample_env (sample_state\<lparr>jsonInput := json_cut\<rparr>) Ftoon = []
   \<and> pane_tokens sample_env (sample_state\<lparr>jsonInput := json_cut\<rparr>) Ftoon = None
   \<and> tokenizer sample_state = Some sample_tokenizer
   \<and> pane_text sample_env sample_state Ftoon = ''a: 1''
   \<and> pane_tokens sample_env sample_state Ftoon = Some 4"
proof -
  have a: "tokenizer other_state = None"
    by (simp add: other_state_def)
  have b: "pane_text sample_env (sample_state\<lparr>jsonInput := json_cut\<rparr>) Ftoon = []"
    by code_simp
  have c: "tokenizer sample_state = Some sample_tokenizer"
    by (simp add: sample_state_def)
  have d: "pane_text sample_env sample_state Ftoon = ''a: 1''"
    by code_simp
  have l: "length (tokenizer_encode sample_tokenizer ''a: 1'') = 4"
    by (simp add: sample_tokenizer_def)
  from token_counts [of other_state sample_env Fyaml] a
  have 1: "pane_tokens sample_env other_state Fyaml = None" by blast
  from token_counts [of "sample_state\<lparr>jsonInput := json_cut\<rparr>" sample_env Ftoon] b
  have 2: "pane_tokens sample_env (sample_state\<lparr>jsonInput := json_cut\<rparr>) Ftoon = None"
    by simp
  from token_counts [of sample_state sample_env Ftoon sample_tokenizer] c d l
  have 3: "pane_tokens sample_env sample_state Ftoon = Some 4"
    by simp
  from a b c d 1 2 3 show ?thesis by simp
qed

section \<open>The tabular adapter\<close>

text \<open>
  C9. With papaparse loaded and a JSON text that parses, the CSV text is the \<^verbatim>\<open>unparse\<close>
  of the one-element list holding the document when the document is not a list, and of
  the document itself when it is a list (the empty text if \<^verbatim>\<open>unparse\<close> throws). The CSV
  parse calls papaparse with \<^verbatim>\<open>header\<close> and \<^verbatim>\<open>dynamicTyping\<close> switched on, the mode in which
  it turns numeric-looking fields into numbers, and stores the rows it returns as the
  JSON text.
\<close>

theorem csv_wraps_non_list:
  "(papa s = Some p \<longrightarrow> \<not> has_error (parsedJson E s) \<longrightarrow> \<not> isArray (pdata (parsedJson E s)) \<longrightarrow>
      csvOutput E s = (case papa_unparse p (JArr [pdata (parsedJson E s)]) of
                         Inr t \<Rightarrow> t | Inl _ \<Rightarrow> []))
   \<and> (papa s = Some p \<longrightarrow> \<not> has_error (parsedJson E s) \<longrightarrow> isArray (pdata (parsedJson E s)) \<longrightarrow>
      csvOutput E s = (case papa_unparse p (pdata (parsedJson E s)) of
                         Inr t \<Rightarrow> t | Inl _ \<Rightarrow> []))
   \<and> (papa s = Some p \<longrightarrow>
      papa_parse p v \<lparr>header = True, dynamicTyping = True\<rparr> = Inr r \<longrightarrow> truthy (data r) \<longrightarrow>
      parseInput_csv E v s = (Normal, s\<lparr>jsonInput := JSON_stringify E (data r) 2\<rparr>))"
  by (simp add: csvOutput_def parseInput_csv_def catch_ignore_def)

theorem csv_wraps_non_list_witness:
  "papa sample_state = Some sample_papa
   \<and> \<not> has_error (parsedJson sample_env sample_state)
   \<and> pdata (parsedJson sample_env sample_state) = doc_a1 \<and> \<not> isArray doc_a1
   \<and> papa_unparse sample_papa (JArr [doc_a1]) = Inr csv_a1
   \<and> csvOutput sample_env sample_state = csv_a1
   \<and> \<not> has_error (parsedJson sample_env rows_state)
   \<and> pdata (parsedJson sample_env rows_state) = rows_ab \<and> isArray rows_ab
   \<and> papa_unparse sample_papa rows_ab = Inr csv_ab
   \<and> csvOutput sample_env rows_state = csv_ab
   \<and> papa_parse sample_papa csv_ab \<lparr>header = True, dynamicTyping = True\<rparr>
       = Inr \<lparr>data = JArr [JObj [(''a'', JNum 1), (''b'', JNum 2)]], errors = []\<rparr>
   \<and> papa_parse sample_papa csv_ab \<lparr>header = True, dynamicTyping = False\<rparr>
       = Inr \<lparr>data = JArr [JObj [(''a'', JStr ''1''), (''b'', JStr ''2'')]], errors = []\<rparr>
   \<and> jsonInput (snd (parseInput_csv sample_env csv_ab sample_state)) = json_rows_pretty"
proof -
  let ?r = "\<lparr>data = JArr [JObj [(''a'', JNum 1), (''b'', JNum 2)]], errors = []\<rparr>"
  have p: "papa sample_state = Some sample_papa" "papa rows_state = Some sample_papa"
    by (simp_all add: sample_state_def rows_state_def)
  have e1: "\<not> has_error (parsedJson sample_env sample_state)"
    "pdata (parsedJson sample_env sample_state) = doc_a1" "\<not> isArray doc_a1"
    by code_simp+
  have e2: "\<not> has_error (parsedJson sample_env rows_state)"
    "pdata (parsedJson sample_env rows_state) = rows_ab" "isArray rows_ab"
    by code_simp+
  have u: "papa_unparse sample_papa (JArr [doc_a1]) = Inr csv_a1"
    "papa_unparse sample_papa rows_ab = Inr csv_ab"
    by code_simp+
  have q: "papa_parse sample_papa csv_ab \<lparr>header = True, dynamicTyping = True\<rparr> = Inr ?r"
    "papa_parse sample_papa csv_ab \<lparr>header = True, dynamicTyping = False\<rparr>
       = Inr \<lparr>data = JArr [JObj [(''a'', JStr ''1''), (''b'', JStr ''2'')]], errors = []\<rparr>"
    by code_simp+
  have j: "JSON_stringify sample_env (JArr [JObj [(''a'', JNum 1), (''b'', JNum 2)]]) 2
      = json_rows_pretty"
    by code_simp
  from csv_wraps_non_list [of sample_state sample_papa sample_env] p e1 u
  have 1: "csvOutput sample_env sample_state = csv_a1" by simp
  from csv_wraps_non_list [of rows_state sample_papa sample_env] p e2 u
  have 2: "csvOutput sample_env rows_state = csv_ab" by simp
  from csv_wraps_non_list [of sample_state sample_papa sample_env csv_ab ?r] p q
  have 3: "parseInput_csv sample_env csv_ab sample_state
      = (Normal, sample_state\<lparr>jsonInput := JSON_stringify sample_env (data ?r) 2\<rparr>)"
    by simp
  from p e1 e2 u q 1 2 show ?thesis
    by (simp add: 3 j)
qed

end
